theory Spec2Isabelle
  imports Main "HOL-Library.Sublist"
begin

section \<open>The rising-posts script\<close>

text \<open>
  A shallow embedding of \<^verbatim>\<open>script_remote.py\<close>: the script reads the webhook URL
  from the process environment when the module is loaded, fetches the rising listing of
  one subreddit, formats the first submission and posts it to the webhook.

  Python strings are modelled as \<^typ>\<open>string\<close>, holding the UTF-8 encoding of the
  text. Everything the script does to the outside (printing, the GET and the POST) is
  recorded as a list of events in the order in which it happens; every exception
  that the script can raise is a value of \<open>exn\<close> returned on the left of a sum.
\<close>

subsection \<open>Values decoded from JSON\<close>

text \<open>
  The fields of a submission that the script reads are strings or integers. A dict is a
  map from its keys; each dict of the listing is modelled by its entries of the type that
  the script reads at that place, so the model covers the answers that have a missing key
  at any level and fields that are a string where an integer is expected (or the other
  way round), and leaves out the answers that hold a value of another JSON type there.
\<close>

datatype pyval = PInt int | PStr string

type_synonym item_data = "string \<rightharpoonup> pyval"
type_synonym item = "string \<rightharpoonup> item_data"
type_synonym listing = "string \<rightharpoonup> item list"
type_synonym body = "string \<rightharpoonup> listing"

datatype exn =
    KeyError string
  | TypeError
  | ValueError
  | JSONDecodeError
  | RequestException

text \<open>\<^verbatim>\<open>d[k]\<close> on a dict: the value, or \<^verbatim>\<open>KeyError(k)\<close>.\<close>

definition subscript :: "(string \<rightharpoonup> 'v) \<Rightarrow> string \<Rightarrow> exn + 'v" where
  "subscript d k = (case d k of None \<Rightarrow> Inl (KeyError k) | Some v \<Rightarrow> Inr v)"

text \<open>Sequencing of steps that may raise: the first exception ends the computation.\<close>

definition and_then :: "exn + 'a \<Rightarrow> ('a \<Rightarrow> exn + 'b) \<Rightarrow> exn + 'b" where
  "and_then m f = (case m of Inl e \<Rightarrow> Inl e | Inr v \<Rightarrow> f v)"

subsection \<open>Formatting integers\<close>

text \<open>\<^verbatim>\<open>str(n)\<close> for an integer: its decimal digits, with a minus sign when negative.\<close>

definition digit :: "nat \<Rightarrow> char" where
  "digit d = ''0123456789'' ! d"

fun digits :: "nat \<Rightarrow> string" where
  "digits n = (if n < 10 then [digit n] else digits (n div 10) @ [digit (n mod 10)])"

definition str_int :: "int \<Rightarrow> string" where
  "str_int i = (if i < 0 then CHR ''-'' # digits (nat (- i)) else digits (nat i))"

text \<open>
  The format specification \<^verbatim>\<open>,\<close> (as in \<^verbatim>\<open>f"{score:,}"\<close>) on an integer: the
  decimal digits are cut into groups of three counted from the right, the groups are
  joined with commas, and the sign comes first.
\<close>

fun chunks3 :: "string \<Rightarrow> string list" where
  "chunks3 [] = []"
| "chunks3 (x # xs) = take 3 (x # xs) # chunks3 (drop 3 (x # xs))"

definition groups :: "string \<Rightarrow> string list" where
  "groups ds =
     (let k = length ds mod 3
      in (if k = 0 then [] else [take k ds]) @ chunks3 (drop k ds))"

fun join :: "string \<Rightarrow> string list \<Rightarrow> string" where
  "join sep [] = []"
| "join sep [g] = g"
| "join sep (g # h # gs) = g @ sep @ join sep (h # gs)"

definition format_comma_int :: "int \<Rightarrow> string" where
  "format_comma_int i =
     (if i < 0 then CHR ''-'' # join '','' (groups (digits (nat (- i))))
      else join '','' (groups (digits (nat i))))"

text \<open>
  \<^verbatim>\<open>f"{v}"\<close> on a value is \<^verbatim>\<open>str(v)\<close>; \<^verbatim>\<open>f"{v:,}"\<close> groups an integer and raises
  \<^verbatim>\<open>ValueError\<close> on a string; \<^verbatim>\<open>"..." + v\<close> raises \<^verbatim>\<open>TypeError\<close> unless \<open>v\<close> is
  a string.
\<close>

fun format_plain :: "pyval \<Rightarrow> string" where
  "format_plain (PStr s) = s"
| "format_plain (PInt i) = str_int i"

fun format_comma :: "pyval \<Rightarrow> exn + string" where
  "format_comma (PInt i) = Inr (format_comma_int i)"
| "format_comma (PStr s) = Inl ValueError"

fun str_add :: "string \<Rightarrow> pyval \<Rightarrow> exn + string" where
  "str_add s (PStr t) = Inr (s @ t)"
| "str_add s (PInt i) = Inl TypeError"

subsection \<open>The outside world\<close>

record response =
  status_code :: int
  json :: "body option"

text \<open>\<^verbatim>\<open>response.json()\<close>: the decoded body, or an exception when the body is not JSON.\<close>

definition response_json :: "response \<Rightarrow> exn + body" where
  "response_json r = (case json r of None \<Rightarrow> Inl JSONDecodeError | Some b \<Rightarrow> Inr b)"

record embed =
  embed_title :: string
  embed_color :: int
  embed_description :: string
  embed_thumbnail_url :: pyval
  embed_footer_text :: string

record payload =
  username :: string
  embeds :: "embed list"

text \<open>
  The environment of one run: the process environment, and what the network answers to
  a GET (URL and headers) and to a POST (URL and JSON payload); an answer on the left is
  the exception that \<^verbatim>\<open>requests\<close> raises instead of returning a response.
\<close>

record world =
  environ :: "string \<rightharpoonup> string"
  http_get :: "string \<Rightarrow> (string \<times> string) list \<Rightarrow> exn + response"
  http_post :: "string \<Rightarrow> payload \<Rightarrow> exn + response"

datatype event =
    Print string
  | Get string "(string \<times> string) list"
  | Post string payload

subsection \<open>The script\<close>

text \<open>
  The loop \<^verbatim>\<open>for item in data\<close> of \<^verbatim>\<open>get_rising_submissions\<close>. Its body ends in a
  \<^verbatim>\<open>return\<close>, so only the first child is ever looked at; when there is no child the
  loop ends and the function returns \<^verbatim>\<open>None\<close>.
\<close>

fun for_item :: "item list \<Rightarrow> exn + (string \<times> pyval) option" where
  "for_item [] = Inr None"
| "for_item (item # rest) =
     and_then (subscript item ''data'') (\<lambda>item_data.
     and_then (subscript item_data ''title'') (\<lambda>title.
     and_then (subscript item_data ''permalink'') (\<lambda>path.
     and_then (str_add ''https://reddit.com'' path) (\<lambda>permalink.
     and_then (subscript item_data ''author'') (\<lambda>author.
     and_then (subscript item_data ''score'') (\<lambda>score.
     and_then (subscript item_data ''url'') (\<lambda>image_url.
     and_then (format_comma score) (\<lambda>grouped.
       Inr (Some (''['' @ format_plain title @ '']('' @ permalink @ '')'' @ [CHR 0x0A]
                    @ ''by **'' @ format_plain author @ ''**'' @ [CHR 0x0A]
                    @ ''**'' @ grouped @ ''** points'',
                  image_url))))))))))"

text \<open>
  \<^verbatim>\<open>get_rising_submissions\<close>: the GET is recorded as an event whether it is answered
  or raises. The \<^verbatim>\<open>with\<close> block only releases the connection when it is left and
  has no other effect, so it has no counterpart here. The status of the response is not
  read anywhere in the function.
\<close>

definition get_rising_submissions ::
  "world \<Rightarrow> string \<Rightarrow> event list \<times> (exn + (string \<times> pyval) option)" where
  "get_rising_submissions w subreddit =
     (let url = ''https://www.reddit.com/r/'' @ subreddit @ ''/rising.json?limit=1'';
          headers = [(''User-Agent'', ''Reddit Rising Checker v1.0'')]
      in ([Get url headers],
          and_then (http_get w url headers) (\<lambda>response.
          and_then (response_json response) (\<lambda>b.
          and_then (subscript b ''data'') (\<lambda>d.
          and_then (subscript d ''children'') (\<lambda>data.
            for_item data))))))"

text \<open>
  The dict that \<^verbatim>\<open>post_message\<close> builds in its variable \<^verbatim>\<open>payload\<close>, with the
  one-entry dicts of the thumbnail and of the footer flattened into fields of the embed.
  The footer text ends with the characters that the source file has after the words
  \<^verbatim>\<open>Powered by Elf Magic\<close>: U+00E2, U+201E and U+00A2, here in UTF-8.
\<close>

definition build_payload :: "string \<Rightarrow> pyval \<Rightarrow> payload" where
  "build_payload message image_url =
     \<lparr>username = ''Rising Posts'',
      embeds = [\<lparr>embed_title = ''Top Rising Post'',
                 embed_color = 102204,
                 embed_description = message,
                 embed_thumbnail_url = image_url,
                 embed_footer_text = ''Powered by Elf Magic''
                   @ [CHR 0xC3, CHR 0xA2, CHR 0xE2, CHR 0x80, CHR 0x9E, CHR 0xC2, CHR 0xA2]\<rparr>]\<rparr>"

text \<open>
  \<^verbatim>\<open>post_message\<close>: the POST is recorded as an event; when it is answered, the status
  of the response is printed, whatever it is.
\<close>

definition post_message ::
  "world \<Rightarrow> string \<Rightarrow> string \<Rightarrow> pyval \<Rightarrow> event list \<times> (exn + unit)" where
  "post_message w WEBHOOK_URL message image_url =
     (let payload = build_payload message image_url
      in case http_post w WEBHOOK_URL payload of
           Inl e \<Rightarrow> ([Post WEBHOOK_URL payload], Inl e)
         | Inr response \<Rightarrow>
             ([Post WEBHOOK_URL payload, Print (str_int (status_code response))], Inr ()))"

text \<open>
  \<^verbatim>\<open>main\<close>, with the module-level constant \<^verbatim>\<open>WEBHOOK_URL\<close> as a parameter.
  Unpacking the result of \<^verbatim>\<open>get_rising_submissions\<close> into two names raises
  \<^verbatim>\<open>TypeError\<close> when the result is \<^verbatim>\<open>None\<close>.
\<close>

definition main :: "world \<Rightarrow> string \<Rightarrow> event list \<times> (exn + unit)" where
  "main w WEBHOOK_URL =
     (let (fetched, result) = get_rising_submissions w ''pics''
      in case result of
           Inl e \<Rightarrow> (Print ''Connecting to Reddit...'' # fetched, Inl e)
         | Inr None \<Rightarrow> (Print ''Connecting to Reddit...'' # fetched, Inl TypeError)
         | Inr (Some (message, image_url)) \<Rightarrow>
             (let (sent, outcome) = post_message w WEBHOOK_URL message image_url
              in (Print ''Connecting to Reddit...'' # fetched
                    @ Print ''Data received. Sending webhook...'' # sent,
                  outcome)))"

text \<open>
  Running the file as a script: the module body reads \<^verbatim>\<open>os.environ["WEBHOOK"]\<close>
  first, then calls \<^verbatim>\<open>main\<close>.
\<close>

definition script :: "world \<Rightarrow> event list \<times> (exn + unit)" where
  "script w =
     (case subscript (environ w) ''WEBHOOK'' of
        Inl e \<Rightarrow> ([], Inl e)
      | Inr WEBHOOK_URL \<Rightarrow> main w WEBHOOK_URL)"

subsection \<open>Vocabulary of the specification\<close>

text \<open>
  The answer of the network to the one GET that \<^verbatim>\<open>get_rising_submissions\<close> issues for
  a subreddit.
\<close>

definition reply :: "world \<Rightarrow> string \<Rightarrow> exn + response" where
  "reply w subreddit =
     http_get w (''https://www.reddit.com/r/'' @ subreddit @ ''/rising.json?limit=1'')
       [(''User-Agent'', ''Reddit Rising Checker v1.0'')]"

text \<open>
  A well-formed response is one whose body decodes to a listing: \<open>children r\<close> is the
  sequence under \<^verbatim>\<open>data.children\<close>, when the body has one.
\<close>

definition children :: "response \<Rightarrow> item list option" where
  "children r =
     (case json r of
        None \<Rightarrow> None
      | Some b \<Rightarrow> (case b ''data'' of None \<Rightarrow> None | Some d \<Rightarrow> d ''children''))"

text \<open>
  A well-formed item has the five fields of the assumed response shape with their
  types: title, permalink, author and url are strings and score is an integer.
\<close>

definition item_fields :: "item \<Rightarrow> (string \<times> string \<times> string \<times> int \<times> string) option" where
  "item_fields item =
     (case item ''data'' of
        None \<Rightarrow> None
      | Some d \<Rightarrow>
          (case (d ''title'', d ''permalink'', d ''author'', d ''score'', d ''url'') of
             (Some (PStr t), Some (PStr p), Some (PStr a), Some (PInt s), Some (PStr u)) \<Rightarrow>
               Some (t, p, a, s, u)
           | _ \<Rightarrow> None))"

text \<open>
  The pieces of a text between the occurrences of a separator character
  (\<^verbatim>\<open>s.split(c)\<close>); the lines of a text are its pieces between newlines.
\<close>

fun split_on :: "char \<Rightarrow> string \<Rightarrow> string list" where
  "split_on c [] = [[]]"
| "split_on c (x # xs) =
     (if x = c then [] # split_on c xs
      else (case split_on c xs of [] \<Rightarrow> [[x]] | g # gs \<Rightarrow> (x # g) # gs))"

definition lines :: "string \<Rightarrow> string list" where
  "lines s = split_on CHR 0x0A s"

text \<open>
  Thousands grouping, in the words of the specification: \<open>rendered\<close> is the decimal
  rendering of \<open>i\<close> with separators, that is, after the sign the commas cut it into
  groups that put together are the digits of \<open>i\<close>, the first group has one to three
  digits and every later group has exactly three.
\<close>

definition thousands_grouping :: "int \<Rightarrow> string \<Rightarrow> bool" where
  "thousands_grouping i rendered \<longleftrightarrow>
     (let sign = (if i < 0 then ''-'' else []);
          gs = split_on CHR '','' (drop (length sign) rendered)
      in take (length sign) rendered = sign \<and> sign @ concat gs = str_int i
         \<and> length (hd gs) \<in> {1, 2, 3} \<and> (\<forall>g \<in> set (tl gs). length g = 3))"

subsection \<open>Example data\<close>

definition submission :: "string \<Rightarrow> string \<Rightarrow> string \<Rightarrow> int \<Rightarrow> string \<Rightarrow> item" where
  "submission t p a s u =
     [''data'' \<mapsto> [''title'' \<mapsto> PStr t, ''permalink'' \<mapsto> PStr p, ''author'' \<mapsto> PStr a,
                  ''score'' \<mapsto> PInt s, ''url'' \<mapsto> PStr u]]"

definition cute_cat :: item where
  "cute_cat = submission ''Cute cat'' ''/r/pics/comments/x/cute_cat/'' ''catlover'' 4200
                ''https://i.example/cat.jpg''"

definition listing_response :: "int \<Rightarrow> item list \<Rightarrow> response" where
  "listing_response code cs =
     \<lparr>status_code = code, json = Some [''data'' \<mapsto> [''children'' \<mapsto> cs]]\<rparr>"

text \<open>
  A world in which the webhook is configured, every GET is answered with the given
  status and listing, and every POST with the given status and a body that is not JSON.
\<close>

definition example_world :: "int \<Rightarrow> item list \<Rightarrow> int \<Rightarrow> world" where
  "example_world get_code cs post_code =
     \<lparr>environ = [''WEBHOOK'' \<mapsto> ''https://discord.example/api/webhooks/1/token''],
      http_get = (\<lambda>url headers. Inr (listing_response get_code cs)),
      http_post = (\<lambda>url p. Inr \<lparr>status_code = post_code, json = None\<rparr>)\<rparr>"

text \<open>
  A world in which the webhook is configured and every GET is answered with status 503
  and a body that is not JSON.
\<close>

definition unavailable_world :: world where
  "unavailable_world =
     (example_world 503 [] 204)
       \<lparr>http_get := (\<lambda>url headers. Inr \<lparr>status_code = 503, json = None\<rparr>)\<rparr>"

text \<open>
  A world in which the webhook is configured and every GET is answered with status 404
  and a JSON object that has no \<^verbatim>\<open>data\<close> entry, as an error body
  \<^verbatim>\<open>{"message": "Not Found", "error": 404}\<close> is.
\<close>

definition not_found_world :: world where
  "not_found_world =
     (example_world 404 [] 204)
       \<lparr>http_get := (\<lambda>url headers. Inr \<lparr>status_code = 404, json = Some Map.empty\<rparr>)\<rparr>"

section \<open>Properties\<close>

subsection \<open>Digits and groups\<close>

declare digits.simps [simp del]

lemma digit_in: "d < 10 \<Longrightarrow> digit d \<in> set ''0123456789''"
  unfolding digit_def by (rule nth_mem) simp

lemma digits_set: "set (digits n) \<subseteq> set ''0123456789''"
proof (induction n rule: digits.induct)
  case (1 n)
  show ?case
  proof (cases "n < 10")
    case True
    then show ?thesis using digit_in [of n] by (subst digits.simps) simp
  next
    case False
    have "digit (n mod 10) \<in> set ''0123456789''" by (rule digit_in) simp
    with False 1 show ?thesis by (subst digits.simps) simp
  qed
qed

lemma digits_not_Nil: "digits n \<noteq> []"
  by (subst digits.simps) simp

lemma chunks3_Cons: "chunks3 (x # xs) = take 3 (x # xs) # chunks3 (drop 3 (x # xs))"
  by (simp only: chunks3.simps)

lemma concat_chunks3: "concat (chunks3 xs) = xs"
proof (induction xs rule: chunks3.induct)
  case 1
  show ?case by simp
next
  case (2 x xs)
  have "concat (chunks3 (x # xs)) = take 3 (x # xs) @ concat (chunks3 (drop 3 (x # xs)))"
    by (simp only: chunks3_Cons concat.simps)
  also have "\<dots> = take 3 (x # xs) @ drop 3 (x # xs)"
    by (simp only: 2)
  finally show ?case
    by (simp only: append_take_drop_id)
qed

lemma chunks3_length:
  "length xs mod 3 = 0 \<Longrightarrow> g \<in> set (chunks3 xs) \<Longrightarrow> length g = 3"
proof (induction xs rule: chunks3.induct)
  case 1
  then show ?case by simp
next
  case (2 x xs)
  define ys where "ys = x # xs"
  have pos: "0 < length ys" by (simp add: ys_def)
  have m: "length ys mod 3 = 0" using "2.prems"(1) by (simp only: ys_def)
  have len: "3 \<le> length ys" using pos m by presburger
  have g: "g = take 3 ys \<or> g \<in> set (chunks3 (drop 3 ys))"
    using "2.prems"(2) by (simp only: ys_def chunks3_Cons set_simps insert_iff)
  show ?case
  proof (rule disjE [OF g])
    assume "g = take 3 ys"
    with len show ?thesis by simp
  next
    assume mem: "g \<in> set (chunks3 (drop 3 ys))"
    have "(length ys - 3) mod 3 = 0" using len m by presburger
    then have "length (drop 3 ys) mod 3 = 0" by simp
    with mem show ?thesis using "2.IH" by (simp only: ys_def)
  qed
qed

lemma chunks3_not_Nil: "xs \<noteq> [] \<Longrightarrow> chunks3 xs \<noteq> []"
  by (cases xs) (simp_all only: chunks3_Cons, simp_all)

lemma concat_groups: "concat (groups ds) = ds"
  by (simp add: groups_def Let_def concat_chunks3)

lemma groups_not_Nil: "ds \<noteq> [] \<Longrightarrow> groups ds \<noteq> []"
  by (simp add: groups_def Let_def chunks3_not_Nil)

lemma drop_mod3: "length (drop (length ds mod 3) ds) mod 3 = 0"
  by (simp add: minus_mod_eq_mult_div)

lemma groups_tl_length:
  assumes "g \<in> set (tl (groups ds))"
  shows "length g = 3"
proof (cases "length ds mod 3 = 0")
  case True
  with assms have "g \<in> set (tl (chunks3 ds))"
    by (simp add: groups_def)
  then have "g \<in> set (chunks3 ds)"
    by (cases "chunks3 ds") auto
  with True show ?thesis by (rule chunks3_length)
next
  case False
  with assms have "g \<in> set (chunks3 (drop (length ds mod 3) ds))"
    by (simp add: groups_def Let_def)
  with drop_mod3 show ?thesis by (rule chunks3_length)
qed

lemma groups_hd_length:
  assumes "ds \<noteq> []"
  shows "length (hd (groups ds)) \<in> {1, 2, 3}"
proof (cases "length ds mod 3 = 0")
  case True
  from assms have "hd (groups ds) \<in> set (chunks3 ds)"
    using True by (simp add: groups_def Let_def chunks3_not_Nil)
  with True have "length (hd (groups ds)) = 3" by (rule chunks3_length)
  then show ?thesis by simp
next
  case False
  then have "hd (groups ds) = take (length ds mod 3) ds"
    by (simp add: groups_def Let_def)
  moreover have "length ds mod 3 \<le> length ds" by (rule mod_less_eq_dividend)
  moreover have "length ds mod 3 < 3" by simp
  ultimately show ?thesis using False by auto
qed

subsection \<open>Splitting and joining\<close>

lemma split_on_not_Nil: "split_on c s \<noteq> []"
  by (cases s) (simp_all split: list.split)

lemma split_on_no_sep: "c \<notin> set s \<Longrightarrow> split_on c s = [s]"
  by (induction s) auto

lemma split_on_append:
  "c \<notin> set g \<Longrightarrow> split_on c (g @ c # rest) = g # split_on c rest"
  by (induction g) auto

lemma split_on_join:
  "gs \<noteq> [] \<Longrightarrow> (\<And>g. g \<in> set gs \<Longrightarrow> c \<notin> set g) \<Longrightarrow> split_on c (join [c] gs) = gs"
proof (induction "[c]" gs rule: join.induct)
  case 1
  then show ?case by simp
next
  case (2 g)
  then show ?case by (simp add: split_on_no_sep)
next
  case (3 g h gs)
  have "c \<notin> set g" using "3.prems"(2) by simp
  then have "split_on c (join [c] (g # h # gs)) = g # split_on c (join [c] (h # gs))"
    by (simp add: split_on_append)
  moreover have "split_on c (join [c] (h # gs)) = h # gs"
    using "3.prems"(2) by (intro "3.hyps") simp_all
  ultimately show ?case by simp
qed

lemma set_join: "set (join sep gs) \<subseteq> set sep \<union> set (concat gs)"
  by (induction sep gs rule: join.induct) auto

lemma tl_split_on_sep: "tl (split_on c (a @ c # b)) \<noteq> []"
  by (induction a) (auto simp: split_on_not_Nil split: list.split)

lemma last_split_on: "last (split_on c (a @ c # b)) = last (split_on c b)"
proof (induction a)
  case Nil
  show ?case by (simp add: split_on_not_Nil)
next
  case (Cons x a)
  let ?r = "split_on c (a @ c # b)"
  show ?case
  proof (cases "x = c")
    case True
    then show ?thesis using Cons by (simp add: split_on_not_Nil)
  next
    case False
    obtain g gs where r: "?r = g # gs" and gs: "gs \<noteq> []"
      using tl_split_on_sep [of c a b] by (cases ?r) auto
    with False Cons show ?thesis by simp
  qed
qed

lemma in_join_groups:
  assumes "x \<in> set (join '','' (groups (digits n)))"
  shows "x = CHR '','' \<or> x \<in> set ''0123456789''"
proof -
  from assms set_join [of "'',''" "groups (digits n)"]
  have "x \<in> set '','' \<union> set (digits n)"
    unfolding concat_groups by (rule rev_subsetD)
  then have "x \<in> set '','' \<or> x \<in> set (digits n)" by (simp only: Un_iff)
  then show ?thesis
  proof
    assume "x \<in> set '',''"
    then show ?thesis by simp
  next
    assume "x \<in> set (digits n)"
    with digits_set have "x \<in> set ''0123456789''" by (rule subsetD)
    then show ?thesis by (rule disjI2)
  qed
qed

lemma in_format_comma_int:
  assumes "x \<in> set (format_comma_int i)"
  shows "x = CHR ''-'' \<or> x = CHR '','' \<or> x \<in> set ''0123456789''"
proof (cases "i < 0")
  case True
  with assms have "x = CHR ''-'' \<or> x \<in> set (join '','' (groups (digits (nat (- i)))))"
    by (simp add: format_comma_int_def)
  then show ?thesis using in_join_groups by blast
next
  case False
  with assms have "x \<in> set (join '','' (groups (digits (nat i))))"
    by (simp add: format_comma_int_def)
  then show ?thesis using in_join_groups by blast
qed

lemma newline_notin_format_comma_int: "CHR 0x0A \<notin> set (format_comma_int i)"
proof
  assume "CHR 0x0A \<in> set (format_comma_int i)"
  then have "CHR 0x0A = CHR ''-'' \<or> CHR 0x0A = CHR '','' \<or> CHR 0x0A \<in> set ''0123456789''"
    by (rule in_format_comma_int)
  then show False by simp
qed

lemma comma_notin_group:
  assumes "g \<in> set (groups (digits n))"
  shows "CHR '','' \<notin> set g"
proof
  assume "CHR '','' \<in> set g"
  with assms have "CHR '','' \<in> set (concat (groups (digits n)))" by auto
  then have "CHR '','' \<in> set (digits n)" by (simp only: concat_groups)
  with digits_set have "CHR '','' \<in> set ''0123456789''" by (rule subsetD)
  then show False by simp
qed

lemma split_join_groups:
  "split_on CHR '','' (join '','' (groups (digits n))) = groups (digits n)"
  by (rule split_on_join) (simp_all add: groups_not_Nil digits_not_Nil comma_notin_group)

lemma thousands_grouping_format: "thousands_grouping i (format_comma_int i)"
proof (cases "i < 0")
  case True
  let ?gs = "groups (digits (nat (- i)))"
  have "length (hd ?gs) \<in> {1, 2, 3}"
    by (rule groups_hd_length) (rule digits_not_Nil)
  moreover have "\<forall>g \<in> set (tl ?gs). length g = 3"
    using groups_tl_length by blast
  ultimately show ?thesis
    using True
    by (simp add: thousands_grouping_def format_comma_int_def split_join_groups concat_groups
          str_int_def)
next
  case False
  let ?gs = "groups (digits (nat i))"
  have "length (hd ?gs) \<in> {1, 2, 3}"
    by (rule groups_hd_length) (rule digits_not_Nil)
  moreover have "\<forall>g \<in> set (tl ?gs). length g = 3"
    using groups_tl_length by blast
  ultimately show ?thesis
    using False
    by (simp add: thousands_grouping_def format_comma_int_def split_join_groups concat_groups
          str_int_def)
qed

subsection \<open>The fetch step on a listing\<close>

lemma item_fields_SomeD:
  assumes "item_fields item = Some (t, p, a, s, u)"
  obtains d where "item ''data'' = Some d" "d ''title'' = Some (PStr t)"
    "d ''permalink'' = Some (PStr p)" "d ''author'' = Some (PStr a)"
    "d ''score'' = Some (PInt s)" "d ''url'' = Some (PStr u)"
  using assms unfolding item_fields_def
  by (auto split: option.splits pyval.splits)

lemma for_item_fields:
  assumes "item_fields item = Some (t, p, a, s, u)"
  shows "for_item (item # rest) =
           Inr (Some (''['' @ t @ ''](https://reddit.com'' @ p @ '')\<newline>by **'' @ a
                        @ ''**\<newline>**'' @ format_comma_int s @ ''** points'',
                      PStr u))"
proof -
  from assms obtain d where "item ''data'' = Some d" "d ''title'' = Some (PStr t)"
    "d ''permalink'' = Some (PStr p)" "d ''author'' = Some (PStr a)"
    "d ''score'' = Some (PInt s)" "d ''url'' = Some (PStr u)"
    by (rule item_fields_SomeD)
  then show ?thesis
    by (simp add: and_then_def subscript_def)
qed

lemma get_rising_submissions_children:
  assumes "reply w subreddit = Inr r" and "children r = Some cs"
  shows "get_rising_submissions w subreddit =
           ([Get (''https://www.reddit.com/r/'' @ subreddit @ ''/rising.json?limit=1'')
               [(''User-Agent'', ''Reddit Rising Checker v1.0'')]],
            for_item cs)"
  using assms
  by (auto simp: get_rising_submissions_def reply_def children_def and_then_def
        subscript_def response_json_def split: option.splits)

lemma get_rising_submissions_fields:
  assumes "reply w subreddit = Inr r" and "children r = Some (item # rest)"
    and "item_fields item = Some (t, p, a, s, u)"
  shows "snd (get_rising_submissions w subreddit) =
           Inr (Some (''['' @ t @ ''](https://reddit.com'' @ p @ '')\<newline>by **'' @ a
                        @ ''**\<newline>**'' @ format_comma_int s @ ''** points'',
                      PStr u))"
  by (simp only: get_rising_submissions_children [OF assms(1,2)] snd_conv
        for_item_fields [OF assms(3)])

lemma reply_example_world:
  "reply (example_world c cs pc) subreddit = Inr (listing_response c cs)"
  by (simp add: reply_def example_world_def)

lemma children_listing_response: "children (listing_response c cs) = Some cs"
  by (simp add: children_def listing_response_def)

lemma item_fields_submission: "item_fields (submission t p a s u) = Some (t, p, a, s, u)"
  by (simp add: item_fields_def submission_def)

lemma format_comma_int_4200: "format_comma_int 4200 = ''4,200''"
  by (simp add: format_comma_int_def groups_def digits.simps digit_def)

text \<open>
  Claim C1. When the listing holds the single item with title \<^verbatim>\<open>Cute cat\<close>, permalink
  \<^verbatim>\<open>/r/pics/comments/x/cute_cat/\<close>, author \<^verbatim>\<open>catlover\<close>, score 4200 and url
  \<^verbatim>\<open>https://i.example/cat.jpg\<close>, \<^verbatim>\<open>get_rising_submissions\<close> returns the pair of the
  three-line summary with the score rendered as \<^verbatim>\<open>4,200\<close> and of that url.
\<close>

theorem cute_cat_summary:
  assumes "reply w subreddit = Inr r" and "children r = Some [item]"
    and "item_fields item =
           Some (''Cute cat'', ''/r/pics/comments/x/cute_cat/'', ''catlover'', 4200,
                 ''https://i.example/cat.jpg'')"
  shows "snd (get_rising_submissions w subreddit) =
           Inr (Some (''[Cute cat](https://reddit.com/r/pics/comments/x/cute_cat/)\<newline>by **catlover**\<newline>**4,200** points'',
                      PStr ''https://i.example/cat.jpg''))"
  using get_rising_submissions_fields [OF assms]
  by (simp add: format_comma_int_4200)

text \<open>The hypotheses of C1 hold in a world that answers with that listing.\<close>

theorem cute_cat_summary_witness:
  "reply (example_world 200 [cute_cat] 204) ''pics'' = Inr (listing_response 200 [cute_cat])
   \<and> children (listing_response 200 [cute_cat]) = Some [cute_cat]
   \<and> item_fields cute_cat =
        Some (''Cute cat'', ''/r/pics/comments/x/cute_cat/'', ''catlover'', 4200,
              ''https://i.example/cat.jpg'')
   \<and> snd (get_rising_submissions (example_world 200 [cute_cat] 204) ''pics'') =
        Inr (Some (''[Cute cat](https://reddit.com/r/pics/comments/x/cute_cat/)\<newline>by **catlover**\<newline>**4,200** points'',
                   PStr ''https://i.example/cat.jpg''))"
proof -
  have h1: "reply (example_world 200 [cute_cat] 204) ''pics''
              = Inr (listing_response 200 [cute_cat])"
    by (simp add: reply_def example_world_def)
  have h2: "children (listing_response 200 [cute_cat]) = Some [cute_cat]"
    by (simp add: children_def listing_response_def)
  have h3: "item_fields cute_cat =
              Some (''Cute cat'', ''/r/pics/comments/x/cute_cat/'', ''catlover'', 4200,
                    ''https://i.example/cat.jpg'')"
    by (simp add: item_fields_def cute_cat_def submission_def)
  show ?thesis
    using cute_cat_summary [OF h1 h2 h3] h1 h2 h3 by simp
qed

subsection \<open>Runs of the script\<close>

lemma script_configured: "environ w ''WEBHOOK'' = Some u \<Longrightarrow> script w = main w u"
  by (simp add: script_def subscript_def)

lemma environ_example_world:
  "environ (example_world c cs pc) ''WEBHOOK''
     = Some ''https://discord.example/api/webhooks/1/token''"
  by (simp add: example_world_def)


text \<open>
  What the run does at an empty listing: the value \<^verbatim>\<open>None\<close> reaches the unpacking in
  \<^verbatim>\<open>main\<close>, which raises \<^verbatim>\<open>TypeError\<close>. The run has printed its first progress
  line and issued the GET; no summary is produced and no POST is attempted.
\<close>

theorem empty_listing_run_fails:
  assumes "environ w ''WEBHOOK'' = Some u" and "reply w ''pics'' = Inr r"
    and "children r = Some []"
  shows "script w =
           ([Print ''Connecting to Reddit...'',
             Get ''https://www.reddit.com/r/pics/rising.json?limit=1''
               [(''User-Agent'', ''Reddit Rising Checker v1.0'')]],
            Inl TypeError)"
  by (simp add: script_configured [OF assms(1)] main_def
        get_rising_submissions_children [OF assms(2,3)])

text \<open>These hypotheses hold in a world that answers with an empty listing.\<close>

theorem empty_listing_run_fails_witness:
  "environ (example_world 200 [] 204) ''WEBHOOK''
     = Some ''https://discord.example/api/webhooks/1/token''
   \<and> reply (example_world 200 [] 204) ''pics'' = Inr (listing_response 200 [])
   \<and> children (listing_response 200 []) = Some []
   \<and> script (example_world 200 [] 204) =
        ([Print ''Connecting to Reddit...'',
          Get ''https://www.reddit.com/r/pics/rising.json?limit=1''
            [(''User-Agent'', ''Reddit Rising Checker v1.0'')]],
         Inl TypeError)"
proof -
  have h1: "environ (example_world 200 [] 204) ''WEBHOOK''
              = Some ''https://discord.example/api/webhooks/1/token''"
    by (simp add: example_world_def)
  have h2: "reply (example_world 200 [] 204) ''pics'' = Inr (listing_response 200 [])"
    by (simp add: reply_def example_world_def)
  have h3: "children (listing_response 200 []) = Some []"
    by (simp add: children_def listing_response_def)
  show ?thesis
    using empty_listing_run_fails [OF h1 h2 h3] h1 h2 h3 by simp
qed

text \<open>
  Claim C6. When the environment has no value for \<^verbatim>\<open>WEBHOOK\<close>, the script fails with
  \<^verbatim>\<open>KeyError\<close> before anything else happens: nothing is printed, and neither the GET
  nor the POST is issued.
\<close>

theorem missing_webhook_aborts:
  assumes "environ w ''WEBHOOK'' = None"
  shows "script w = ([], Inl (KeyError ''WEBHOOK''))"
  using assms by (simp add: script_def subscript_def)

text \<open>The hypothesis of C6 holds in a world with an empty environment.\<close>

theorem missing_webhook_aborts_witness:
  "environ ((example_world 200 [cute_cat] 204)\<lparr>environ := Map.empty\<rparr>) ''WEBHOOK'' = None
   \<and> script ((example_world 200 [cute_cat] 204)\<lparr>environ := Map.empty\<rparr>)
       = ([], Inl (KeyError ''WEBHOOK''))"
proof -
  have h: "environ ((example_world 200 [cute_cat] 204)\<lparr>environ := Map.empty\<rparr>) ''WEBHOOK''
             = None"
    by simp
  show ?thesis
    using missing_webhook_aborts [OF h] h by simp
qed

subsection \<open>The notification\<close>

lemma hd_post_message:
  "hd (fst (post_message w u message image_url)) = Post u (build_payload message image_url)"
  by (simp add: post_message_def Let_def split: sum.split)

text \<open>
  Claim C4. For every summary text and image URL, the payload that \<^verbatim>\<open>post_message\<close>
  posts has the display name \<^verbatim>\<open>Rising Posts\<close> and exactly one embed, whose title is
  \<^verbatim>\<open>Top Rising Post\<close>, whose color is 102204 and whose footer text is the fixed
  \<^verbatim>\<open>Powered by Elf Magic\<close> string of the source; the description and the thumbnail
  are the two inputs.
\<close>

theorem payload_fixed_fields:
  "hd (fst (post_message w u message image_url)) = Post u (build_payload message image_url)
   \<and> username (build_payload message image_url) = ''Rising Posts''
   \<and> map embed_title (embeds (build_payload message image_url)) = [''Top Rising Post'']
   \<and> map embed_color (embeds (build_payload message image_url)) = [102204]
   \<and> map embed_footer_text (embeds (build_payload message image_url)) =
        [''Powered by Elf Magic''
           @ [CHR 0xC3, CHR 0xA2, CHR 0xE2, CHR 0x80, CHR 0x9E, CHR 0xC2, CHR 0xA2]]
   \<and> map embed_description (embeds (build_payload message image_url)) = [message]
   \<and> map embed_thumbnail_url (embeds (build_payload message image_url)) = [image_url]"
  by (simp add: hd_post_message) (simp add: build_payload_def)

lemma post_message_completes:
  assumes "http_post w u (build_payload message image_url) = Inr pr"
  shows "post_message w u message image_url =
           ([Post u (build_payload message image_url), Print (str_int (status_code pr))],
            Inr ())"
  using assms by (simp add: post_message_def Let_def)

lemma main_fetched:
  assumes "snd (get_rising_submissions w ''pics'') = Inr (Some (message, image_url))"
  shows "main w u =
           (Print ''Connecting to Reddit...'' # fst (get_rising_submissions w ''pics'')
              @ Print ''Data received. Sending webhook...''
                # fst (post_message w u message image_url),
            snd (post_message w u message image_url))"
  using assms
  by (cases "get_rising_submissions w ''pics''")
    (simp add: main_def split: prod.split)

text \<open>
  Claim C5. When the POST completes with a response, whatever its status code,
  \<^verbatim>\<open>post_message\<close> prints that code and returns normally, and the run of the script
  ends successfully with the code as its last output.
\<close>

theorem delivery_status_printed:
  assumes "environ w ''WEBHOOK'' = Some u"
    and "snd (get_rising_submissions w ''pics'') = Inr (Some (message, image_url))"
    and "http_post w u (build_payload message image_url) = Inr pr"
  shows "post_message w u message image_url =
           ([Post u (build_payload message image_url), Print (str_int (status_code pr))],
            Inr ())
         \<and> snd (script w) = Inr ()
         \<and> last (fst (script w)) = Print (str_int (status_code pr))"
  by (simp add: script_configured [OF assms(1)] main_fetched [OF assms(2)]
        post_message_completes [OF assms(3)])

lemma str_int_204: "str_int 204 = ''204''"
  by (simp add: str_int_def digits.simps digit_def)

lemma str_int_400: "str_int 400 = ''400''"
  by (simp add: str_int_def digits.simps digit_def)

lemma fetched_cute_cat:
  "snd (get_rising_submissions (example_world c [cute_cat] pc) ''pics'') =
     Inr (Some (''[Cute cat](https://reddit.com/r/pics/comments/x/cute_cat/)\<newline>by **catlover**\<newline>**4,200** points'',
                PStr ''https://i.example/cat.jpg''))"
proof -
  have "item_fields cute_cat =
          Some (''Cute cat'', ''/r/pics/comments/x/cute_cat/'', ''catlover'', 4200,
                ''https://i.example/cat.jpg'')"
    by (simp add: cute_cat_def item_fields_submission)
  from get_rising_submissions_fields [OF reply_example_world children_listing_response this]
  show ?thesis
    by (simp add: format_comma_int_4200)
qed

lemma http_post_example_world:
  "http_post (example_world c cs pc) u p = Inr \<lparr>status_code = pc, json = None\<rparr>"
  by (simp add: example_world_def)

text \<open>The hypotheses of C5 hold for the statuses 400 and 204, which are printed as such.\<close>

theorem delivery_status_printed_witness:
  "environ (example_world 200 [cute_cat] 400) ''WEBHOOK''
     = Some ''https://discord.example/api/webhooks/1/token''
   \<and> snd (get_rising_submissions (example_world 200 [cute_cat] 400) ''pics'') =
       Inr (Some (''[Cute cat](https://reddit.com/r/pics/comments/x/cute_cat/)\<newline>by **catlover**\<newline>**4,200** points'',
                  PStr ''https://i.example/cat.jpg''))
   \<and> http_post (example_world 200 [cute_cat] 400)
         ''https://discord.example/api/webhooks/1/token''
         (build_payload ''[Cute cat](https://reddit.com/r/pics/comments/x/cute_cat/)\<newline>by **catlover**\<newline>**4,200** points''
            (PStr ''https://i.example/cat.jpg''))
       = Inr \<lparr>status_code = 400, json = None\<rparr>
   \<and> snd (script (example_world 200 [cute_cat] 400)) = Inr ()
   \<and> last (fst (script (example_world 200 [cute_cat] 400))) = Print ''400''
   \<and> snd (script (example_world 200 [cute_cat] 204)) = Inr ()
   \<and> last (fst (script (example_world 200 [cute_cat] 204))) = Print ''204''"
  using
    delivery_status_printed [OF environ_example_world fetched_cute_cat http_post_example_world,
      of 200 400]
    delivery_status_printed [OF environ_example_world fetched_cute_cat http_post_example_world,
      of 200 204]
    environ_example_world [of 200 "[cute_cat]" 400] fetched_cute_cat [of 200 400]
    http_post_example_world [of 200 "[cute_cat]" 400]
  by (simp add: str_int_204 str_int_400)

text \<open>
  Claim C3 says that every non-2xx answer to the GET ends the run in a failure. A 404
  answer that carries a listing is a counterexample: the summary is produced and posted,
  and the run ends successfully.
\<close>

theorem non_2xx_listing_delivered:
  "script (example_world 404 [cute_cat] 204) =
     ([Print ''Connecting to Reddit...'',
       Get ''https://www.reddit.com/r/pics/rising.json?limit=1''
         [(''User-Agent'', ''Reddit Rising Checker v1.0'')],
       Print ''Data received. Sending webhook...'',
       Post ''https://discord.example/api/webhooks/1/token''
         (build_payload ''[Cute cat](https://reddit.com/r/pics/comments/x/cute_cat/)\<newline>by **catlover**\<newline>**4,200** points''
            (PStr ''https://i.example/cat.jpg'')),
       Print ''204''],
      Inr ())"
  by (simp add: script_configured [OF environ_example_world]
        main_fetched [OF fetched_cute_cat]
        post_message_completes [OF http_post_example_world] str_int_204
        get_rising_submissions_children [OF reply_example_world children_listing_response])

subsection \<open>The status of the listing response\<close>

lemma get_rising_submissions_same_body:
  assumes "reply w subreddit = Inr r" and "reply w' subreddit = Inr r'"
    and "json r = json r'"
  shows "get_rising_submissions w subreddit = get_rising_submissions w' subreddit"
  using assms
  by (simp add: get_rising_submissions_def reply_def and_then_def response_json_def)

lemma fst_get_rising_submissions:
  "fst (get_rising_submissions w subreddit) =
     [Get (''https://www.reddit.com/r/'' @ subreddit @ ''/rising.json?limit=1'')
        [(''User-Agent'', ''Reddit Rising Checker v1.0'')]]"
  by (simp add: get_rising_submissions_def Let_def)

lemma get_rising_submissions_no_children:
  assumes "reply w subreddit = Inr r" and "children r = None"
  shows "isl (snd (get_rising_submissions w subreddit))"
  using assms
  by (auto simp: get_rising_submissions_def reply_def children_def and_then_def
        subscript_def response_json_def split: option.splits)

lemma main_raised:
  assumes "isl (snd (get_rising_submissions w ''pics''))"
  shows "isl (snd (main w u))
         \<and> fst (main w u) =
             [Print ''Connecting to Reddit...'',
              Get ''https://www.reddit.com/r/pics/rising.json?limit=1''
                [(''User-Agent'', ''Reddit Rising Checker v1.0'')]]"
proof -
  obtain evs res where g: "get_rising_submissions w ''pics'' = (evs, res)"
    by (cases "get_rising_submissions w ''pics''")
  with assms obtain e where "res = Inl e"
    by (cases res) simp_all
  moreover have "evs = [Get ''https://www.reddit.com/r/pics/rising.json?limit=1''
                          [(''User-Agent'', ''Reddit Rising Checker v1.0'')]]"
    using fst_get_rising_submissions [of w "''pics''"] g by simp
  ultimately show ?thesis
    using g by (simp add: main_def)
qed

lemma main_None:
  assumes "snd (get_rising_submissions w ''pics'') = Inr None"
  shows "isl (snd (main w u))
         \<and> fst (main w u) =
             [Print ''Connecting to Reddit...'',
              Get ''https://www.reddit.com/r/pics/rising.json?limit=1''
                [(''User-Agent'', ''Reddit Rising Checker v1.0'')]]"
proof -
  obtain evs res where g: "get_rising_submissions w ''pics'' = (evs, res)"
    by (cases "get_rising_submissions w ''pics''")
  with assms have "res = Inr None" by simp
  moreover have "evs = [Get ''https://www.reddit.com/r/pics/rising.json?limit=1''
                          [(''User-Agent'', ''Reddit Rising Checker v1.0'')]]"
    using fst_get_rising_submissions [of w "''pics''"] g by simp
  ultimately show ?thesis
    using g by (simp add: main_def)
qed

lemma take4_main_fetched:
  assumes "snd (get_rising_submissions w ''pics'') = Inr (Some (message, image_url))"
  shows "take 4 (fst (main w u)) =
           [Print ''Connecting to Reddit...'',
            Get ''https://www.reddit.com/r/pics/rising.json?limit=1''
              [(''User-Agent'', ''Reddit Rising Checker v1.0'')],
            Print ''Data received. Sending webhook...'',
            Post u (build_payload message image_url)]"
proof -
  have "fst (post_message w u message image_url)
          = Post u (build_payload message image_url)
              # tl (fst (post_message w u message image_url))"
    by (simp add: post_message_def Let_def split: sum.split)
  then obtain evs where "fst (post_message w u message image_url)
                           = Post u (build_payload message image_url) # evs"
    by blast
  then show ?thesis
    by (simp add: main_fetched [OF assms] fst_get_rising_submissions)
qed

text \<open>
  Claim C3, amended. The status code of the answer to the GET is never inspected: two runs
  that differ only in the answer to the GET, with the same decoded body, are the same run.
  So for an answer of any status, a non-2xx one in particular, the run ends in an
  unrecovered failure after the GET, with no summary and no POST, whenever the body
  yields no summary: it is not JSON or has no \<^verbatim>\<open>data.children\<close>, the children
  sequence is empty, or reading the first item raises. Only when the body is a listing
  whose first item is well-formed is the summary produced and posted, and the run then
  ends as the delivery does.
\<close>

theorem get_status_not_inspected:
  assumes "environ w ''WEBHOOK'' = Some u" and "reply w ''pics'' = Inr r"
  shows "(environ w' = environ w \<and> http_post w' = http_post w
            \<and> reply w' ''pics'' = Inr r' \<and> json r' = json r
          \<longrightarrow> script w' = script w)
         \<and> ((children r = None \<or> children r = Some []
              \<or> (\<exists>item rest. children r = Some (item # rest) \<and> isl (for_item (item # rest))))
             \<longrightarrow> isl (snd (script w))
                 \<and> fst (script w) =
                     [Print ''Connecting to Reddit...'',
                      Get ''https://www.reddit.com/r/pics/rising.json?limit=1''
                        [(''User-Agent'', ''Reddit Rising Checker v1.0'')]])
         \<and> (children r = Some (item # rest) \<and> item_fields item = Some (t, p, a, s, link)
             \<longrightarrow> take 4 (fst (script w)) =
                   [Print ''Connecting to Reddit...'',
                    Get ''https://www.reddit.com/r/pics/rising.json?limit=1''
                      [(''User-Agent'', ''Reddit Rising Checker v1.0'')],
                    Print ''Data received. Sending webhook...'',
                    Post u (build_payload
                              (''['' @ t @ ''](https://reddit.com'' @ p @ '')\<newline>by **'' @ a
                                 @ ''**\<newline>**'' @ format_comma_int s @ ''** points'')
                              (PStr link))]
                 \<and> snd (script w) =
                     snd (post_message w u
                            (''['' @ t @ ''](https://reddit.com'' @ p @ '')\<newline>by **'' @ a
                               @ ''**\<newline>**'' @ format_comma_int s @ ''** points'')
                            (PStr link)))"
proof (intro conjI impI)
  assume same: "environ w' = environ w \<and> http_post w' = http_post w
                  \<and> reply w' ''pics'' = Inr r' \<and> json r' = json r"
  have pm: "post_message w' = post_message w"
    using same by (simp add: fun_eq_iff post_message_def)
  have rw: "reply w' ''pics'' = Inr r'" and js: "json r' = json r"
    using same by simp_all
  have gs: "get_rising_submissions w' ''pics'' = get_rising_submissions w ''pics''"
    using rw assms(2) js by (rule get_rising_submissions_same_body)
  have "environ w' ''WEBHOOK'' = Some u"
    using assms(1) same by simp
  then have "script w' = main w' u"
    by (rule script_configured)
  also have "\<dots> = main w u"
    unfolding main_def pm gs by (rule refl)
  finally show "script w' = script w"
    by (simp add: script_configured [OF assms(1)])
next
  assume none: "children r = None \<or> children r = Some []
      \<or> (\<exists>item rest. children r = Some (item # rest) \<and> isl (for_item (item # rest)))"
  have "isl (snd (main w u))
         \<and> fst (main w u) =
             [Print ''Connecting to Reddit...'',
              Get ''https://www.reddit.com/r/pics/rising.json?limit=1''
                [(''User-Agent'', ''Reddit Rising Checker v1.0'')]]"
    using none
  proof (elim disjE exE conjE)
    assume "children r = None"
    with assms(2) have "isl (snd (get_rising_submissions w ''pics''))"
      by (rule get_rising_submissions_no_children)
    then show ?thesis by (rule main_raised)
  next
    assume "children r = Some []"
    then have "snd (get_rising_submissions w ''pics'') = Inr None"
      by (simp add: get_rising_submissions_children [OF assms(2)])
    then show ?thesis by (rule main_None)
  next
    fix item rest
    assume "children r = Some (item # rest)" and "isl (for_item (item # rest))"
    then have "isl (snd (get_rising_submissions w ''pics''))"
      by (simp add: get_rising_submissions_children [OF assms(2)])
    then show ?thesis by (rule main_raised)
  qed
  then show "isl (snd (script w))"
    and "fst (script w) =
           [Print ''Connecting to Reddit...'',
            Get ''https://www.reddit.com/r/pics/rising.json?limit=1''
              [(''User-Agent'', ''Reddit Rising Checker v1.0'')]]"
    by (simp_all add: script_configured [OF assms(1)])
next
  let ?m = "''['' @ t @ ''](https://reddit.com'' @ p @ '')\<newline>by **'' @ a
              @ ''**\<newline>**'' @ format_comma_int s @ ''** points''"
  assume wf: "children r = Some (item # rest) \<and> item_fields item = Some (t, p, a, s, link)"
  then have f: "snd (get_rising_submissions w ''pics'') = Inr (Some (?m, PStr link))"
    using get_rising_submissions_fields [OF assms(2), of item rest t p a s link] by simp
  show "take 4 (fst (script w)) =
          [Print ''Connecting to Reddit...'',
           Get ''https://www.reddit.com/r/pics/rising.json?limit=1''
             [(''User-Agent'', ''Reddit Rising Checker v1.0'')],
           Print ''Data received. Sending webhook...'',
           Post u (build_payload ?m (PStr link))]"
    using take4_main_fetched [OF f, of u] by (simp add: script_configured [OF assms(1)])
  show "snd (script w) = snd (post_message w u ?m (PStr link))"
    by (simp add: script_configured [OF assms(1)] main_fetched [OF f])
qed


lemma environ_unavailable_world:
  "environ unavailable_world ''WEBHOOK'' = Some ''https://discord.example/api/webhooks/1/token''"
  by (simp add: unavailable_world_def example_world_def)

lemma reply_unavailable_world:
  "reply unavailable_world subreddit = Inr \<lparr>status_code = 503, json = None\<rparr>"
  by (simp add: unavailable_world_def reply_def)

lemma environ_not_found_world:
  "environ not_found_world ''WEBHOOK'' = Some ''https://discord.example/api/webhooks/1/token''"
  by (simp add: not_found_world_def example_world_def)

lemma reply_not_found_world:
  "reply not_found_world subreddit = Inr \<lparr>status_code = 404, json = Some Map.empty\<rparr>"
  by (simp add: not_found_world_def reply_def)

text \<open>
  The hypotheses of the amended C3 hold for a 404 and a 200 answer with the same listing,
  which are both delivered, and the failure holds for a 503 answer that is not JSON, a
  404 answer with a JSON error body, a 500 answer with an empty listing and a 404 answer
  whose first item has no permalink.
\<close>

theorem get_status_not_inspected_witness:
  "environ (example_world 404 [cute_cat] 204) ''WEBHOOK''
     = Some ''https://discord.example/api/webhooks/1/token''
   \<and> reply (example_world 404 [cute_cat] 204) ''pics'' = Inr (listing_response 404 [cute_cat])
   \<and> environ (example_world 200 [cute_cat] 204) = environ (example_world 404 [cute_cat] 204)
   \<and> http_post (example_world 200 [cute_cat] 204) = http_post (example_world 404 [cute_cat] 204)
   \<and> reply (example_world 200 [cute_cat] 204) ''pics'' = Inr (listing_response 200 [cute_cat])
   \<and> json (listing_response 200 [cute_cat]) = json (listing_response 404 [cute_cat])
   \<and> script (example_world 200 [cute_cat] 204) = script (example_world 404 [cute_cat] 204)
   \<and> children (listing_response 404 [cute_cat]) = Some [cute_cat]
   \<and> item_fields cute_cat =
        Some (''Cute cat'', ''/r/pics/comments/x/cute_cat/'', ''catlover'', 4200,
              ''https://i.example/cat.jpg'')
   \<and> take 4 (fst (script (example_world 404 [cute_cat] 204))) =
        [Print ''Connecting to Reddit...'',
         Get ''https://www.reddit.com/r/pics/rising.json?limit=1''
           [(''User-Agent'', ''Reddit Rising Checker v1.0'')],
         Print ''Data received. Sending webhook...'',
         Post ''https://discord.example/api/webhooks/1/token''
           (build_payload ''[Cute cat](https://reddit.com/r/pics/comments/x/cute_cat/)\<newline>by **catlover**\<newline>**4,200** points''
              (PStr ''https://i.example/cat.jpg''))]
   \<and> snd (script (example_world 404 [cute_cat] 204)) = Inr ()
   \<and> reply unavailable_world ''pics'' = Inr \<lparr>status_code = 503, json = None\<rparr>
   \<and> children \<lparr>status_code = 503, json = None\<rparr> = None
   \<and> isl (snd (script unavailable_world))
   \<and> fst (script unavailable_world) =
        [Print ''Connecting to Reddit...'',
         Get ''https://www.reddit.com/r/pics/rising.json?limit=1''
           [(''User-Agent'', ''Reddit Rising Checker v1.0'')]]
   \<and> reply not_found_world ''pics'' = Inr \<lparr>status_code = 404, json = Some Map.empty\<rparr>
   \<and> children \<lparr>status_code = 404, json = Some Map.empty\<rparr> = None
   \<and> isl (snd (script not_found_world))
   \<and> fst (script not_found_world) =
        [Print ''Connecting to Reddit...'',
         Get ''https://www.reddit.com/r/pics/rising.json?limit=1''
           [(''User-Agent'', ''Reddit Rising Checker v1.0'')]]
   \<and> children (listing_response 500 []) = Some []
   \<and> isl (snd (script (example_world 500 [] 204)))
   \<and> fst (script (example_world 500 [] 204)) =
        [Print ''Connecting to Reddit...'',
         Get ''https://www.reddit.com/r/pics/rising.json?limit=1''
           [(''User-Agent'', ''Reddit Rising Checker v1.0'')]]
   \<and> children (listing_response 404 [[''data'' \<mapsto> [''title'' \<mapsto> PStr ''t'']]])
        = Some [[''data'' \<mapsto> [''title'' \<mapsto> PStr ''t'']]]
   \<and> isl (for_item [[''data'' \<mapsto> [''title'' \<mapsto> PStr ''t'']]])
   \<and> isl (snd (script (example_world 404 [[''data'' \<mapsto> [''title'' \<mapsto> PStr ''t'']]] 204)))
   \<and> fst (script (example_world 404 [[''data'' \<mapsto> [''title'' \<mapsto> PStr ''t'']]] 204)) =
        [Print ''Connecting to Reddit...'',
         Get ''https://www.reddit.com/r/pics/rising.json?limit=1''
           [(''User-Agent'', ''Reddit Rising Checker v1.0'')]]"
proof -
  let ?hook = "''https://discord.example/api/webhooks/1/token''"
  let ?m = "''[Cute cat](https://reddit.com/r/pics/comments/x/cute_cat/)\<newline>by **catlover**\<newline>**4,200** points''"
  let ?bad = "[''data'' \<mapsto> [''title'' \<mapsto> PStr ''t'']] :: item"
  have e: "environ (example_world 200 [cute_cat] 204) = environ (example_world 404 [cute_cat] 204)"
    by (simp add: example_world_def)
  have p: "http_post (example_world 200 [cute_cat] 204)
             = http_post (example_world 404 [cute_cat] 204)"
    by (simp add: example_world_def)
  have j: "json (listing_response 200 [cute_cat]) = json (listing_response 404 [cute_cat])"
    by (simp add: listing_response_def)
  have f: "item_fields cute_cat =
             Some (''Cute cat'', ''/r/pics/comments/x/cute_cat/'', ''catlover'', 4200,
                   ''https://i.example/cat.jpg'')"
    by (simp add: cute_cat_def item_fields_submission)
  have n1: "children \<lparr>status_code = 503, json = None\<rparr> = None"
    by (simp add: children_def)
  have n2: "children \<lparr>status_code = 404, json = Some Map.empty\<rparr> = None"
    by (simp add: children_def)
  have b: "isl (for_item [?bad])"
    by (simp add: and_then_def subscript_def)
  have pm: "snd (post_message (example_world 404 [cute_cat] 204) ?hook ?m
                   (PStr ''https://i.example/cat.jpg'')) = Inr ()"
    by (simp add: post_message_completes [OF http_post_example_world])
  have env404: "environ (example_world 404 [cute_cat] 204) ''WEBHOOK'' = Some ?hook"
    by (rule environ_example_world)
  have rep404: "reply (example_world 404 [cute_cat] 204) ''pics''
                  = Inr (listing_response 404 [cute_cat])"
    by (rule reply_example_world)
  have env500: "environ (example_world 500 [] 204) ''WEBHOOK'' = Some ?hook"
    by (rule environ_example_world)
  have rep500: "reply (example_world 500 [] 204) ''pics'' = Inr (listing_response 500 [])"
    by (rule reply_example_world)
  have envbad: "environ (example_world 404 [?bad] 204) ''WEBHOOK'' = Some ?hook"
    by (rule environ_example_world)
  have repbad: "reply (example_world 404 [?bad] 204) ''pics'' = Inr (listing_response 404 [?bad])"
    by (rule reply_example_world)
  note A = get_status_not_inspected
    [OF env404 rep404, where ?w' = "example_world 200 [cute_cat] 204"
      and ?r' = "listing_response 200 [cute_cat]" and ?item = cute_cat and ?rest = "[]"
      and ?t = "''Cute cat''" and ?p = "''/r/pics/comments/x/cute_cat/''"
      and ?a = "''catlover''" and ?s = 4200 and ?link = "''https://i.example/cat.jpg''"]
  note B = get_status_not_inspected
    [OF environ_unavailable_world reply_unavailable_world, THEN conjunct2, THEN conjunct1]
  note C = get_status_not_inspected
    [OF environ_not_found_world reply_not_found_world, THEN conjunct2, THEN conjunct1]
  note D = get_status_not_inspected [OF env500 rep500, THEN conjunct2, THEN conjunct1]
  note E = get_status_not_inspected [OF envbad repbad, THEN conjunct2, THEN conjunct1]
  have a1: "script (example_world 200 [cute_cat] 204) = script (example_world 404 [cute_cat] 204)"
    using A e p j by (simp add: reply_example_world)
  have a2: "take 4 (fst (script (example_world 404 [cute_cat] 204))) =
        [Print ''Connecting to Reddit...'',
         Get ''https://www.reddit.com/r/pics/rising.json?limit=1''
           [(''User-Agent'', ''Reddit Rising Checker v1.0'')],
         Print ''Data received. Sending webhook...'',
         Post ?hook (build_payload ?m (PStr ''https://i.example/cat.jpg''))]"
    and a3: "snd (script (example_world 404 [cute_cat] 204)) = Inr ()"
    using A f pm by (simp_all add: children_listing_response format_comma_int_4200)
  have b1: "isl (snd (script unavailable_world))
            \<and> fst (script unavailable_world) =
                [Print ''Connecting to Reddit...'',
                 Get ''https://www.reddit.com/r/pics/rising.json?limit=1''
                   [(''User-Agent'', ''Reddit Rising Checker v1.0'')]]"
    using B n1 by simp
  have c1: "isl (snd (script not_found_world))
            \<and> fst (script not_found_world) =
                [Print ''Connecting to Reddit...'',
                 Get ''https://www.reddit.com/r/pics/rising.json?limit=1''
                   [(''User-Agent'', ''Reddit Rising Checker v1.0'')]]"
    using C n2 by simp
  have d1: "isl (snd (script (example_world 500 [] 204)))
            \<and> fst (script (example_world 500 [] 204)) =
                [Print ''Connecting to Reddit...'',
                 Get ''https://www.reddit.com/r/pics/rising.json?limit=1''
                   [(''User-Agent'', ''Reddit Rising Checker v1.0'')]]"
    using D by (simp add: children_listing_response)
  have e1: "isl (snd (script (example_world 404 [?bad] 204)))
            \<and> fst (script (example_world 404 [?bad] 204)) =
                [Print ''Connecting to Reddit...'',
                 Get ''https://www.reddit.com/r/pics/rising.json?limit=1''
                   [(''User-Agent'', ''Reddit Rising Checker v1.0'')]]"
    using E b by (simp add: children_listing_response)
  show ?thesis
    using a1 a2 a3 b1 c1 d1 e1 e p j f n1 n2 b
    by (simp add: environ_example_world reply_example_world children_listing_response
          reply_unavailable_world reply_not_found_world)
qed

subsection \<open>The shape of the summary\<close>

text \<open>
  Claim C7. The summary begins with the link line \<^verbatim>\<open>[title](permalink)\<close>, in which the
  permalink is the origin \<^verbatim>\<open>https://reddit.com\<close> followed by the path field of the
  item, unchanged.
\<close>

theorem permalink_verbatim:
  assumes "reply w subreddit = Inr r" and "children r = Some (item # rest)"
    and "item_fields item = Some (t, p, a, s, u)"
  shows "\<exists>message. snd (get_rising_submissions w subreddit) = Inr (Some (message, PStr u))
           \<and> prefix (''['' @ t @ '']('' @ (''https://reddit.com'' @ p) @ '')\<newline>'') message"
  by (simp add: get_rising_submissions_fields [OF assms])

text \<open>The hypotheses of C7 hold for the path \<^verbatim>\<open>/r/pics/comments/abc123/title/\<close>.\<close>

theorem permalink_verbatim_witness:
  "reply (example_world 200 [submission ''title'' ''/r/pics/comments/abc123/title/'' ''op'' 7 ''https://i.example/a.png''] 204) ''pics''
     = Inr (listing_response 200 [submission ''title'' ''/r/pics/comments/abc123/title/'' ''op'' 7 ''https://i.example/a.png''])
   \<and> children (listing_response 200 [submission ''title'' ''/r/pics/comments/abc123/title/'' ''op'' 7 ''https://i.example/a.png''])
       = Some [submission ''title'' ''/r/pics/comments/abc123/title/'' ''op'' 7 ''https://i.example/a.png'']
   \<and> item_fields (submission ''title'' ''/r/pics/comments/abc123/title/'' ''op'' 7 ''https://i.example/a.png'')
       = Some (''title'', ''/r/pics/comments/abc123/title/'', ''op'', 7, ''https://i.example/a.png'')
   \<and> (\<exists>message.
         snd (get_rising_submissions (example_world 200 [submission ''title'' ''/r/pics/comments/abc123/title/'' ''op'' 7 ''https://i.example/a.png''] 204) ''pics'')
           = Inr (Some (message, PStr ''https://i.example/a.png''))
         \<and> prefix ''[title](https://reddit.com/r/pics/comments/abc123/title/)\<newline>'' message)"
  using permalink_verbatim [OF reply_example_world children_listing_response item_fields_submission,
      of 200 "''title''" "''/r/pics/comments/abc123/title/''" "''op''" 7 "''https://i.example/a.png''" "[]" 204 "''pics''"]
    reply_example_world children_listing_response item_fields_submission
  by simp

text \<open>
  Claim C8 asks for exactly three lines when the title and the author have no newline.
  A permalink with a newline is a counterexample: the summary then has four lines.
\<close>

theorem permalink_newline_four_lines:
  "item_fields (submission ''t'' ''/a\<newline>b'' ''u'' 1 ''x'') = Some (''t'', ''/a\<newline>b'', ''u'', 1, ''x'')
   \<and> CHR 0x0A \<notin> set ''t'' \<and> CHR 0x0A \<notin> set ''u''
   \<and> snd (get_rising_submissions
             (example_world 200 [submission ''t'' ''/a\<newline>b'' ''u'' 1 ''x''] 204) ''pics'')
       = Inr (Some (''[t](https://reddit.com/a\<newline>b)\<newline>by **u**\<newline>**1** points'', PStr ''x''))
   \<and> lines ''[t](https://reddit.com/a\<newline>b)\<newline>by **u**\<newline>**1** points''
       = [''[t](https://reddit.com/a'', ''b)'', ''by **u**'', ''**1** points'']"
proof -
  have f: "format_comma_int 1 = ''1''"
    by (simp add: format_comma_int_def groups_def digits.simps digit_def)
  show ?thesis
    using get_rising_submissions_fields
      [OF reply_example_world children_listing_response item_fields_submission,
        of 200 "''t''" "''/a\<newline>b''" "''u''" 1 "''x''" "[]" 204 "''pics''"]
    by (simp add: item_fields_submission f lines_def)
qed

lemma lines_three:
  assumes "CHR 0x0A \<notin> set l1" and "CHR 0x0A \<notin> set l2" and "CHR 0x0A \<notin> set l3"
  shows "lines (l1 @ CHR 0x0A # l2 @ CHR 0x0A # l3) = [l1, l2, l3]"
  using assms by (simp add: lines_def split_on_append split_on_no_sep)

text \<open>
  Claim C8, amended. For a well-formed listing with at least one item whose title,
  permalink and author contain no newline, the summary has exactly three lines, in this
  order: the link line, the author line and the score line.
\<close>

theorem summary_three_lines:
  assumes "reply w subreddit = Inr r" and "children r = Some (item # rest)"
    and "item_fields item = Some (t, p, a, s, u)"
    and "CHR 0x0A \<notin> set t" and "CHR 0x0A \<notin> set p" and "CHR 0x0A \<notin> set a"
  shows "\<exists>message. snd (get_rising_submissions w subreddit) = Inr (Some (message, PStr u))
           \<and> lines message =
               [''['' @ t @ '']('' @ ''https://reddit.com'' @ p @ '')'',
                ''by **'' @ a @ ''**'',
                ''**'' @ format_comma_int s @ ''** points'']"
proof -
  let ?l1 = "''['' @ t @ '']('' @ ''https://reddit.com'' @ p @ '')''"
  let ?l2 = "''by **'' @ a @ ''**''"
  let ?l3 = "''**'' @ format_comma_int s @ ''** points''"
  have "CHR 0x0A \<notin> set ?l1" using assms(4,5) by simp
  moreover have "CHR 0x0A \<notin> set ?l2" using assms(6) by simp
  moreover have "CHR 0x0A \<notin> set ?l3" using newline_notin_format_comma_int [of s] by simp
  ultimately have "lines (?l1 @ CHR 0x0A # ?l2 @ CHR 0x0A # ?l3) = [?l1, ?l2, ?l3]"
    by (rule lines_three)
  moreover have "snd (get_rising_submissions w subreddit) =
      Inr (Some (?l1 @ CHR 0x0A # ?l2 @ CHR 0x0A # ?l3, PStr u))"
    by (simp add: get_rising_submissions_fields [OF assms(1,2,3)])
  ultimately show ?thesis by blast
qed

text \<open>The hypotheses of the amended C8 hold for the example item.\<close>

theorem summary_three_lines_witness:
  "reply (example_world 200 [cute_cat] 204) ''pics'' = Inr (listing_response 200 [cute_cat])
   \<and> children (listing_response 200 [cute_cat]) = Some [cute_cat]
   \<and> item_fields cute_cat =
        Some (''Cute cat'', ''/r/pics/comments/x/cute_cat/'', ''catlover'', 4200,
              ''https://i.example/cat.jpg'')
   \<and> CHR 0x0A \<notin> set ''Cute cat'' \<and> CHR 0x0A \<notin> set ''/r/pics/comments/x/cute_cat/''
   \<and> CHR 0x0A \<notin> set ''catlover''
   \<and> (\<exists>message.
         snd (get_rising_submissions (example_world 200 [cute_cat] 204) ''pics'')
           = Inr (Some (message, PStr ''https://i.example/cat.jpg''))
         \<and> lines message =
             [''[Cute cat](https://reddit.com/r/pics/comments/x/cute_cat/)'',
              ''by **catlover**'', ''**4,200** points''])"
proof -
  have h1: "reply (example_world 200 [cute_cat] 204) ''pics''
              = Inr (listing_response 200 [cute_cat])"
    by (rule reply_example_world)
  have h2: "children (listing_response 200 [cute_cat]) = Some [cute_cat]"
    by (rule children_listing_response)
  have h3: "item_fields cute_cat =
              Some (''Cute cat'', ''/r/pics/comments/x/cute_cat/'', ''catlover'', 4200,
                    ''https://i.example/cat.jpg'')"
    by (simp add: cute_cat_def item_fields_submission)
  have h4: "CHR 0x0A \<notin> set ''Cute cat''" by simp
  have h5: "CHR 0x0A \<notin> set ''/r/pics/comments/x/cute_cat/''" by simp
  have h6: "CHR 0x0A \<notin> set ''catlover''" by simp
  show ?thesis
    using summary_three_lines [OF h1 h2 h3 h4 h5 h6] h1 h2 h3 h4 h5 h6
    by (simp add: format_comma_int_4200)
qed

lemma format_comma_int_12345: "format_comma_int 12345 = ''12,345''"
  by (simp add: format_comma_int_def groups_def digits.simps digit_def)

lemma last_lines_score:
  "last (lines (l1 @ CHR 0x0A # l2 @ CHR 0x0A # ''**'' @ format_comma_int s @ ''** points''))
     = ''**'' @ format_comma_int s @ ''** points''"
proof -
  have "CHR 0x0A \<notin> set (''**'' @ format_comma_int s @ ''** points'')"
    using newline_notin_format_comma_int [of s] by simp
  then have "lines (''**'' @ format_comma_int s @ ''** points'')
               = [''**'' @ format_comma_int s @ ''** points'']"
    unfolding lines_def by (rule split_on_no_sep)
  then show ?thesis
    by (simp only: lines_def last_split_on) simp
qed

text \<open>
  Claim C9. For every integer score, the last line of the summary is the score rendered
  with thousands grouping between \<^verbatim>\<open>**\<close> marks, followed by the word
  \<^verbatim>\<open>points\<close>; the score 12345 is rendered as \<^verbatim>\<open>12,345\<close>.
\<close>

theorem score_line_grouped:
  assumes "reply w subreddit = Inr r" and "children r = Some (item # rest)"
    and "item_fields item = Some (t, p, a, s, u)"
  shows "(\<exists>message. snd (get_rising_submissions w subreddit) = Inr (Some (message, PStr u))
            \<and> last (lines message) = ''**'' @ format_comma_int s @ ''** points'')
         \<and> thousands_grouping s (format_comma_int s)
         \<and> format_comma_int 12345 = ''12,345''"
proof -
  let ?l1 = "''['' @ t @ '']('' @ ''https://reddit.com'' @ p @ '')''"
  let ?l2 = "''by **'' @ a @ ''**''"
  let ?l3 = "''**'' @ format_comma_int s @ ''** points''"
  have "snd (get_rising_submissions w subreddit) =
      Inr (Some (?l1 @ CHR 0x0A # ?l2 @ CHR 0x0A # ?l3, PStr u))"
    by (simp add: get_rising_submissions_fields [OF assms])
  moreover have "last (lines (?l1 @ CHR 0x0A # ?l2 @ CHR 0x0A # ?l3)) = ?l3"
    by (rule last_lines_score)
  ultimately have "\<exists>message. snd (get_rising_submissions w subreddit)
                      = Inr (Some (message, PStr u)) \<and> last (lines message) = ?l3"
    by blast
  then show ?thesis
    using thousands_grouping_format [of s] format_comma_int_12345 by simp
qed

text \<open>The hypotheses of C9 hold for an item with score 12345.\<close>

theorem score_line_grouped_witness:
  "reply (example_world 200 [submission ''t'' ''/p'' ''a'' 12345 ''u''] 204) ''pics''
     = Inr (listing_response 200 [submission ''t'' ''/p'' ''a'' 12345 ''u''])
   \<and> children (listing_response 200 [submission ''t'' ''/p'' ''a'' 12345 ''u''])
       = Some [submission ''t'' ''/p'' ''a'' 12345 ''u'']
   \<and> item_fields (submission ''t'' ''/p'' ''a'' 12345 ''u'')
       = Some (''t'', ''/p'', ''a'', 12345, ''u'')
   \<and> (\<exists>message.
         snd (get_rising_submissions
                (example_world 200 [submission ''t'' ''/p'' ''a'' 12345 ''u''] 204) ''pics'')
           = Inr (Some (message, PStr ''u''))
         \<and> last (lines message) = ''**12,345** points'')
   \<and> thousands_grouping 12345 ''12,345''"
proof -
  have h1: "reply (example_world 200 [submission ''t'' ''/p'' ''a'' 12345 ''u''] 204) ''pics''
     = Inr (listing_response 200 [submission ''t'' ''/p'' ''a'' 12345 ''u''])"
    by (rule reply_example_world)
  have h2: "children (listing_response 200 [submission ''t'' ''/p'' ''a'' 12345 ''u''])
       = Some [submission ''t'' ''/p'' ''a'' 12345 ''u'']"
    by (rule children_listing_response)
  have h3: "item_fields (submission ''t'' ''/p'' ''a'' 12345 ''u'')
       = Some (''t'', ''/p'', ''a'', 12345, ''u'')"
    by (rule item_fields_submission)
  show ?thesis
    using score_line_grouped [OF h1 h2 h3] h1 h2 h3
    by (simp add: format_comma_int_12345)
qed

text \<open>
  Claim C10. For two well-formed listings, each with at least one item, the summary
  depends only on the title, permalink, author and score of the first item, and the
  returned image URL is the url field of the first item: when the first items agree on
  the four fields the two summaries are equal, whatever the url fields and the later
  children are.
\<close>

theorem summary_noninterference:
  assumes "reply w1 sub1 = Inr r1" and "children r1 = Some (item1 # rest1)"
    and "item_fields item1 = Some (t1, p1, a1, s1, u1)"
    and "reply w2 sub2 = Inr r2" and "children r2 = Some (item2 # rest2)"
    and "item_fields item2 = Some (t2, p2, a2, s2, u2)"
  shows "\<exists>m1 m2.
           snd (get_rising_submissions w1 sub1) = Inr (Some (m1, PStr u1))
           \<and> snd (get_rising_submissions w2 sub2) = Inr (Some (m2, PStr u2))
           \<and> (t1 = t2 \<and> p1 = p2 \<and> a1 = a2 \<and> s1 = s2 \<longrightarrow> m1 = m2)"
  by (simp add: get_rising_submissions_fields [OF assms(1,2,3)]
        get_rising_submissions_fields [OF assms(4,5,6)])

text \<open>
  The hypotheses of C10 hold for two listings whose first items differ in the url only,
  the second listing having one more child.
\<close>

theorem summary_noninterference_witness:
  "reply (example_world 200 [cute_cat] 204) ''pics'' = Inr (listing_response 200 [cute_cat])
   \<and> children (listing_response 200 [cute_cat]) = Some [cute_cat]
   \<and> item_fields cute_cat =
        Some (''Cute cat'', ''/r/pics/comments/x/cute_cat/'', ''catlover'', 4200,
              ''https://i.example/cat.jpg'')
   \<and> reply (example_world 200
              [submission ''Cute cat'' ''/r/pics/comments/x/cute_cat/'' ''catlover'' 4200
                 ''https://i.example/other.png'',
               submission ''Second'' ''/r/pics/comments/y/second/'' ''someone'' 5
                 ''https://i.example/second.png''] 204) ''pics''
       = Inr (listing_response 200
              [submission ''Cute cat'' ''/r/pics/comments/x/cute_cat/'' ''catlover'' 4200
                 ''https://i.example/other.png'',
               submission ''Second'' ''/r/pics/comments/y/second/'' ''someone'' 5
                 ''https://i.example/second.png''])
   \<and> children (listing_response 200
              [submission ''Cute cat'' ''/r/pics/comments/x/cute_cat/'' ''catlover'' 4200
                 ''https://i.example/other.png'',
               submission ''Second'' ''/r/pics/comments/y/second/'' ''someone'' 5
                 ''https://i.example/second.png''])
       = Some [submission ''Cute cat'' ''/r/pics/comments/x/cute_cat/'' ''catlover'' 4200
                 ''https://i.example/other.png'',
               submission ''Second'' ''/r/pics/comments/y/second/'' ''someone'' 5
                 ''https://i.example/second.png'']
   \<and> item_fields (submission ''Cute cat'' ''/r/pics/comments/x/cute_cat/'' ''catlover'' 4200
                    ''https://i.example/other.png'')
       = Some (''Cute cat'', ''/r/pics/comments/x/cute_cat/'', ''catlover'', 4200,
               ''https://i.example/other.png'')
   \<and> (\<exists>m.
         snd (get_rising_submissions (example_world 200 [cute_cat] 204) ''pics'')
           = Inr (Some (m, PStr ''https://i.example/cat.jpg''))
         \<and> snd (get_rising_submissions
                  (example_world 200
                     [submission ''Cute cat'' ''/r/pics/comments/x/cute_cat/'' ''catlover'' 4200
                        ''https://i.example/other.png'',
                      submission ''Second'' ''/r/pics/comments/y/second/'' ''someone'' 5
                        ''https://i.example/second.png''] 204) ''pics'')
           = Inr (Some (m, PStr ''https://i.example/other.png'')))"
proof -
  have h3: "item_fields cute_cat =
              Some (''Cute cat'', ''/r/pics/comments/x/cute_cat/'', ''catlover'', 4200,
                    ''https://i.example/cat.jpg'')"
    by (simp add: cute_cat_def item_fields_submission)
  show ?thesis
    using summary_noninterference
      [OF reply_example_world children_listing_response h3
          reply_example_world children_listing_response item_fields_submission,
        of 200 "[]" 204 "''pics''" 200 "''Cute cat''" "''/r/pics/comments/x/cute_cat/''"
           "''catlover''" 4200 "''https://i.example/other.png''"
           "[submission ''Second'' ''/r/pics/comments/y/second/'' ''someone'' 5
               ''https://i.example/second.png'']" 204 "''pics''"]
      h3
    by (auto simp: reply_example_world children_listing_response item_fields_submission)
qed

end
